theory Spec2Isabelle
  imports Complex_Main "HOL-Library.Char_ord" "HOL-Library.List_Lexorder"
begin

section \<open>Errors and model registry (examples/applies.py)\<close>

text \<open>
  The exceptions the pipeline can raise, as values. Python raises \<open>ValueError\<close> both for an
  unknown model name (\<open>get_model\<close>) and for a count field that is not a number
  (\<open>astype(numpy.float32)\<close>); the message tells them apart.
\<close>

datatype error =
    ValueError string
  | IOError string
  | EmptyDataError
  | ParserError
  | KeyError nat
  | IndexError nat
  | UnicodeError string

datatype model_class =
    AlternatingLeastSquares
  | NMSLibAlternatingLeastSquares
  | AnnoyAlternatingLeastSquares
  | FaissAlternatingLeastSquares
  | TFIDFRecommender
  | CosineRecommender
  | BayesianPersonalizedRanking
  | BM25Recommender

datatype param_value = PInt int | PReal real | PBool bool | PType string

text \<open>\<open>MODELS\<close>: maps the command line model argument to the class.\<close>

definition MODELS :: "(string \<times> model_class) list" where
  "MODELS =
    [(''als'', AlternatingLeastSquares),
     (''nmslib_als'', NMSLibAlternatingLeastSquares),
     (''annoy_als'', AnnoyAlternatingLeastSquares),
     (''faiss_als'', FaissAlternatingLeastSquares),
     (''tfidf'', TFIDFRecommender),
     (''cosine'', CosineRecommender),
     (''bpr'', BayesianPersonalizedRanking),
     (''bm25'', BM25Recommender)]"

section \<open>Sparse matrices\<close>

text \<open>
  A matrix in coordinate form is its shape and its stored entries \<open>(row, column, value)\<close> in
  the order they were given; the same position may be stored several times. A matrix in
  compressed sparse row form is its shape and, for every row, the stored \<open>(column, value)\<close>
  pairs. Values are reals: the rounding of \<open>float32\<close> is not modelled.
\<close>

record coo_matrix =
  shape :: "nat \<times> nat"
  entries :: "(nat \<times> nat \<times> real) list"

record csr_matrix =
  csr_shape :: "nat \<times> nat"
  csr_rows :: "(nat \<times> real) list list"

text \<open>The stored values of one position, in entry order.\<close>

definition values_at :: "(nat \<times> nat \<times> real) list \<Rightarrow> nat \<Rightarrow> nat \<Rightarrow> real list" where
  "values_at es r c = map (\<lambda>e. snd (snd e)) (filter (\<lambda>e. fst e = r \<and> fst (snd e) = c) es)"

text \<open>The column indices stored in one row, each once, ascending.\<close>

definition row_indices :: "(nat \<times> nat \<times> real) list \<Rightarrow> nat \<Rightarrow> nat list" where
  "row_indices es r = sort (remdups (map (\<lambda>e. fst (snd e)) (filter (\<lambda>e. fst e = r) es)))"

text \<open>
  \<open>coo_matrix.tocsr()\<close>: duplicate entries are summed together; an entry whose value is
  zero stays stored.
\<close>

definition tocsr :: "coo_matrix \<Rightarrow> csr_matrix" where
  "tocsr X =
    \<lparr>csr_shape = shape X,
     csr_rows = map (\<lambda>r. map (\<lambda>c. (c, sum_list (values_at (entries X) r c)))
                              (row_indices (entries X) r))
                    [0..<fst (shape X)]\<rparr>"

text \<open>\<open>M.T.tocsr()\<close>: the transposed matrix, again by rows.\<close>

definition transpose_tocsr :: "csr_matrix \<Rightarrow> csr_matrix" where
  "transpose_tocsr M =
    \<lparr>csr_shape = (snd (csr_shape M), fst (csr_shape M)),
     csr_rows = map (\<lambda>u. concat (map (\<lambda>j. map (\<lambda>cv. (j, snd cv))
                                              (filter (\<lambda>cv. fst cv = u) (csr_rows M ! j)))
                                     [0..<length (csr_rows M)]))
                    [0..<snd (csr_shape M)]\<rparr>"

text \<open>
  Modelled from the spec: \<open>bm25_weight\<close> is imported from \<open>implicit.nearest_neighbours\<close>,
  which is not under src/. The spec gives it as a transform that keeps the shape and the
  non-zero pattern and rescales each stored value by a BM25 formula with the saturation
  constant \<open>K1\<close> and the length normalisation constant \<open>B\<close>, down-weighting columns (users)
  that occur in many entries and normalising by the total of the row. The model is the
  usual BM25 term weight: the inverse frequency of the column, times the saturated value
  \<open>v * (K1 + 1) / (K1 * length_norm + v)\<close>. Division is HOL's (\<open>x / 0 = 0\<close>).
\<close>

definition bincount :: "(nat \<times> nat \<times> real) list \<Rightarrow> nat \<Rightarrow> nat" where
  "bincount es c = length (filter (\<lambda>e. fst (snd e) = c) es)"

definition idf :: "coo_matrix \<Rightarrow> nat \<Rightarrow> real" where
  "idf X c = ln (real (fst (shape X))) - ln (1 + real (bincount (entries X) c))"

definition row_sums :: "coo_matrix \<Rightarrow> nat \<Rightarrow> real" where
  "row_sums X r = sum_list (map (\<lambda>e. snd (snd e)) (filter (\<lambda>e. fst e = r) (entries X)))"

definition average_length :: "coo_matrix \<Rightarrow> real" where
  "average_length X = sum_list (map (row_sums X) [0..<fst (shape X)]) / real (fst (shape X))"

definition length_norm :: "coo_matrix \<Rightarrow> real \<Rightarrow> nat \<Rightarrow> real" where
  "length_norm X B r = (1 - B) + B * row_sums X r / average_length X"

definition bm25_value :: "coo_matrix \<Rightarrow> real \<Rightarrow> real \<Rightarrow> nat \<Rightarrow> nat \<Rightarrow> real \<Rightarrow> real" where
  "bm25_value X K1 B r c v = v * (K1 + 1) / (K1 * length_norm X B r + v) * idf X c"

definition bm25_weight :: "coo_matrix \<Rightarrow> real \<Rightarrow> real \<Rightarrow> coo_matrix" where
  "bm25_weight X K1 B =
    X\<lparr>entries := map (\<lambda>e. (fst e, fst (snd e),
                            bm25_value X K1 B (fst e) (fst (snd e)) (snd (snd e))))
                      (entries X)\<rparr>"

section \<open>Models\<close>

text \<open>
  A model object: its class, the keyword arguments it was constructed with, the
  \<open>approximate_recommend\<close> attribute (\<open>None\<close> while the object has no such attribute) and
  the matrix it was fitted on.
\<close>

record model =
  model_class :: model_class
  params :: "(string \<times> param_value) list"
  approximate_recommend :: "bool option"
  fitted :: "csr_matrix option"

text \<open>
  Modelled from the spec: the class hierarchy and the constructors of the model library
  (\<open>implicit.als\<close>, \<open>implicit.approximate_als\<close>, \<open>implicit.bpr\<close>,
  \<open>implicit.nearest_neighbours\<close>) are not under src/. The factorization family is the
  alternating least squares class and its three approximate variants, which are the ones
  that expose an approximate acceleration flag (on when constructed); the neighbourhood
  and the ranking-loss classes are not in it. \<open>fit\<close> only changes the state of the model.
\<close>

fun issubclass_AlternatingLeastSquares :: "model_class \<Rightarrow> bool" where
  "issubclass_AlternatingLeastSquares AlternatingLeastSquares = True"
| "issubclass_AlternatingLeastSquares NMSLibAlternatingLeastSquares = True"
| "issubclass_AlternatingLeastSquares AnnoyAlternatingLeastSquares = True"
| "issubclass_AlternatingLeastSquares FaissAlternatingLeastSquares = True"
| "issubclass_AlternatingLeastSquares TFIDFRecommender = False"
| "issubclass_AlternatingLeastSquares CosineRecommender = False"
| "issubclass_AlternatingLeastSquares BayesianPersonalizedRanking = False"
| "issubclass_AlternatingLeastSquares BM25Recommender = False"

definition new_model :: "model_class \<Rightarrow> (string \<times> param_value) list \<Rightarrow> model" where
  "new_model c ps =
    \<lparr>model_class = c, params = ps,
     approximate_recommend =
       (if c = NMSLibAlternatingLeastSquares \<or> c = AnnoyAlternatingLeastSquares
           \<or> c = FaissAlternatingLeastSquares then Some True else None),
     fitted = None\<rparr>"

definition fit :: "model \<Rightarrow> csr_matrix \<Rightarrow> model" where
  "fit m X = m\<lparr>fitted := Some X\<rparr>"

definition unknown_model :: "string \<Rightarrow> string" where
  "unknown_model model_name = ''Unknown Model '' @ [CHR 0x27] @ model_name @ [CHR 0x27]"

text \<open>\<open>get_model\<close>: the class of the name, constructed with some default parameters.\<close>

definition get_model :: "string \<Rightarrow> error + model" where
  "get_model model_name =
    (case map_of MODELS model_name of
       None \<Rightarrow> Inl (ValueError (unknown_model model_name))
     | Some cls \<Rightarrow>
         Inr (new_model cls
           (if issubclass_AlternatingLeastSquares cls then
              [(''factors'', PInt 64), (''dtype'', PType ''float32''), (''use_gpu'', PBool False)]
            else if model_name = ''bm25'' then [(''K1'', PInt 100), (''B'', PReal (1 / 2))]
            else if model_name = ''bpr'' then [(''factors'', PInt 63), (''use_gpu'', PBool False)]
            else [])))"

section \<open>The environment of a run\<close>

text \<open>
  What the pipeline uses and does not define: the conversion of a text field to a number
  (\<open>None\<close> where Python raises \<open>ValueError\<close>), the text of a score (\<open>"%s" % score\<close>),
  whether the output codec accepts a line, and the answers of a fitted model. The models
  are opaque: any functions of the model's state may stand for their answers.
\<close>

record env =
  to_float :: "string \<Rightarrow> real option"
  show_score :: "real \<Rightarrow> string"
  encodable :: "string \<Rightarrow> bool"
  similar_items :: "model \<Rightarrow> nat \<Rightarrow> nat \<Rightarrow> (nat \<times> real) list"
  rank_row :: "model \<Rightarrow> nat \<Rightarrow> (nat \<times> real) list \<Rightarrow> (nat \<times> real) list"

text \<open>
  Modelled from the spec: the \<open>recommend\<close> method of a model (not under src/) is given the
  user's code and the user-oriented matrix and ranks against the row of that user.
\<close>

definition recommend :: "env \<Rightarrow> model \<Rightarrow> nat \<Rightarrow> csr_matrix \<Rightarrow> (nat \<times> real) list" where
  "recommend E m userid user_items = rank_row E m userid (csr_rows user_items ! userid)"

text \<open>
  The files of a run and what the run did, in order: input files are the lines of a file,
  each line the list of its comma separated fields (a blank line has none); output files
  are their lines.
\<close>

datatype event =
    ReadCsv string
  | Fit model
  | OpenOutput string
  | SimilarItems nat nat
  | Recommend nat

record world =
  inputs :: "string \<Rightarrow> string list list option"
  outputs :: "string \<Rightarrow> string list option"
  trace :: "event list"

definition log_event :: "event \<Rightarrow> world \<Rightarrow> world" where
  "log_event e w = w\<lparr>trace := trace w @ [e]\<rparr>"

section \<open>Data loader\<close>

record dataframe =
  frame :: "(string \<times> string \<times> string) list"
  user_categories :: "string list"
  job_categories :: "string list"

text \<open>
  \<open>pandas.read_csv(filename, sep=',', names=['user', 'job', 'applies'], na_filter=False)\<close>:
  blank lines are skipped, a file with no line left has no data, a line with fewer than
  three fields is filled up with empty strings (which \<open>na_filter=False\<close> keeps as they
  are), a line with more fields than names is refused.
\<close>

fun pad_fields :: "string list \<Rightarrow> (string \<times> string \<times> string) option" where
  "pad_fields [u] = Some (u, [], [])"
| "pad_fields [u, j] = Some (u, j, [])"
| "pad_fields [u, j, a] = Some (u, j, a)"
| "pad_fields fs = None"

fun those_rows :: "string list list \<Rightarrow> (string \<times> string \<times> string) list option" where
  "those_rows [] = Some []"
| "those_rows (l # ls) =
     (case pad_fields l of
        None \<Rightarrow> None
      | Some r \<Rightarrow> (case those_rows ls of None \<Rightarrow> None | Some rs \<Rightarrow> Some (r # rs)))"

definition read_csv :: "string list list \<Rightarrow> error + (string \<times> string \<times> string) list" where
  "read_csv lines =
    (let ls = filter (\<lambda>l. l \<noteq> []) lines in
     if ls = [] then Inl EmptyDataError
     else (case those_rows ls of None \<Rightarrow> Inl ParserError | Some rs \<Rightarrow> Inr rs))"

text \<open>\<open>astype("category")\<close>: the categories are the distinct values in ascending order,
  the code of a value is its position among them.\<close>

definition categories :: "string list \<Rightarrow> string list" where
  "categories xs = sort (remdups xs)"

fun code_of :: "string list \<Rightarrow> string \<Rightarrow> nat" where
  "code_of [] x = 0"
| "code_of (c # cs) x = (if c = x then 0 else Suc (code_of cs x))"

text \<open>\<open>astype(numpy.float32)\<close> over the count column: the first field that is not a number
  raises.\<close>

fun astype_float :: "env \<Rightarrow> string list \<Rightarrow> error + real list" where
  "astype_float E [] = Inr []"
| "astype_float E (s # ss) =
     (case to_float E s of
        None \<Rightarrow> Inl (ValueError (''could not convert string to float: '' @ s))
      | Some v \<Rightarrow> (case astype_float E ss of Inl e \<Rightarrow> Inl e | Inr vs \<Rightarrow> Inr (v # vs)))"

definition read_data :: "env \<Rightarrow> string \<Rightarrow> world \<Rightarrow> (error + dataframe \<times> coo_matrix) \<times> world" where
  "read_data E filename w =
    (let w1 = log_event (ReadCsv filename) w in
     case inputs w filename of
       None \<Rightarrow> (Inl (IOError filename), w1)
     | Some lines \<Rightarrow>
        (case read_csv lines of
           Inl e \<Rightarrow> (Inl e, w1)
         | Inr data \<Rightarrow>
            (let users = categories (map fst data);
                 jobs = categories (map (\<lambda>r. fst (snd r)) data)
             in case astype_float E (map (\<lambda>r. snd (snd r)) data) of
                  Inl e \<Rightarrow> (Inl e, w1)
                | Inr vs \<Rightarrow>
                   (Inr (\<lparr>frame = data, user_categories = users, job_categories = jobs\<rparr>,
                         \<lparr>shape = (length jobs, length users),
                          entries = zip (map (\<lambda>r. code_of jobs (fst (snd r))) data)
                                     (zip (map (\<lambda>r. code_of users (fst r)) data) vs)\<rparr>),
                    w1))))"

section \<open>Weighting and fitting\<close>

text \<open>
  The statements both report functions run between \<open>get_model\<close> and \<open>fit\<close>: an ALS based
  model gets its input weighted by \<open>bm25_weight(applies, K1=100, B=0.8)\<close> and its
  \<open>approximate_recommend\<close> attribute set to \<open>False\<close>.
\<close>

definition weight_input :: "model \<Rightarrow> coo_matrix \<Rightarrow> model \<times> coo_matrix" where
  "weight_input m applies =
    (if issubclass_AlternatingLeastSquares (model_class m)
     then (m\<lparr>approximate_recommend := Some False\<rparr>, bm25_weight applies 100 (4 / 5))
     else (m, applies))"

section \<open>Writing the report\<close>

definition codecs_open :: "string \<Rightarrow> world \<Rightarrow> world" where
  "codecs_open filename w =
    w\<lparr>outputs := (outputs w)(filename \<mapsto> []), trace := trace w @ [OpenOutput filename]\<rparr>"

text \<open>\<open>o.write(line)\<close>: the line is appended, unless the codec refuses it, which raises and
  writes nothing.\<close>

definition o_write :: "env \<Rightarrow> string \<Rightarrow> string \<Rightarrow> world \<Rightarrow> error option \<times> world" where
  "o_write E filename line w =
    (if encodable E line
     then (None, w\<lparr>outputs := (outputs w)(filename \<mapsto>
                      (case outputs w filename of None \<Rightarrow> [] | Some ls \<Rightarrow> ls) @ [line])\<rparr>)
     else (Some (UnicodeError line), w))"

text \<open>\<open>dict(enumerate(categories))\<close>.\<close>

definition enumerate_dict :: "string list \<Rightarrow> nat \<Rightarrow> string option" where
  "enumerate_dict cats i = (if i < length cats then Some (cats ! i) else None)"

definition tab :: string where
  "tab = [CHR 0x09]"

definition newline :: string where
  "newline = [CHR 0x0A]"

section \<open>Similarity report\<close>

text \<open>\<open>df.groupby('job').size()\<close>: for every job category, in category order, the number
  of rows of the frame with that job.\<close>

definition groupby_size :: "dataframe \<Rightarrow> nat list" where
  "groupby_size df =
    map (\<lambda>c. length (filter (\<lambda>r. fst (snd r) = c) (frame df))) (job_categories df)"

text \<open>The body of the inner loop: \<open>try: o.write(...) except: pass\<close>. Whatever the
  lookup of the other job or the write raises is swallowed.\<close>

definition write_similar ::
  "env \<Rightarrow> (nat \<Rightarrow> string option) \<Rightarrow> string \<Rightarrow> string \<Rightarrow> nat \<times> real \<Rightarrow> world \<Rightarrow> world" where
  "write_similar E jobs filename job os w =
    (case jobs (fst os) of
       None \<Rightarrow> w
     | Some other \<Rightarrow>
         snd (o_write E filename (job @ tab @ other @ tab @ show_score E (snd os) @ newline) w))"

fun similar_loop ::
  "env \<Rightarrow> model \<Rightarrow> (nat \<Rightarrow> string option) \<Rightarrow> string \<Rightarrow> nat list \<Rightarrow> world
    \<Rightarrow> error option \<times> world" where
  "similar_loop E m jobs filename [] w = (None, w)"
| "similar_loop E m jobs filename (jid # rest) w =
     (case jobs jid of
        None \<Rightarrow> (Some (KeyError jid), w)
      | Some job \<Rightarrow>
          similar_loop E m jobs filename rest
            (fold (write_similar E jobs filename job) (similar_items E m jid 11)
               (log_event (SimilarItems jid 11) w)))"

text \<open>\<open>sorted(list(jobs), key=lambda x: -user_count[x])\<close>: the job codes, by descending
  count; the sort is stable. The job labels being strings, the integer \<open>x\<close> reads
  \<open>user_count\<close> by position.\<close>

definition to_generate :: "dataframe \<Rightarrow> nat list" where
  "to_generate df =
    sort_key (\<lambda>x. - int (groupby_size df ! x)) [0..<length (job_categories df)]"

definition calculate_similar_jobs ::
  "env \<Rightarrow> string \<Rightarrow> string \<Rightarrow> string \<Rightarrow> world \<Rightarrow> error option \<times> world" where
  "calculate_similar_jobs E input_filename output_filename model_name w =
    (case read_data E input_filename w of
       (Inl e, w1) \<Rightarrow> (Some e, w1)
     | (Inr (df, applies), w1) \<Rightarrow>
        (case get_model model_name of
           Inl e \<Rightarrow> (Some e, w1)
         | Inr model0 \<Rightarrow>
            (let model1 = fst (weight_input model0 applies);
                 applies1 = snd (weight_input model0 applies);
                 applies2 = tocsr applies1;
                 m = fit model1 applies2;
                 w2 = log_event (Fit m) w1;
                 jobs = enumerate_dict (job_categories df);
                 w3 = codecs_open output_filename w2
             in similar_loop E m jobs output_filename (to_generate df) w3)))"

section \<open>Recommendation report\<close>

text \<open>
  The lines of one user's block, each either the line to write or the exception that
  building it raises: the recommended jobs, the line \<open>Applies for user ...\<close>, and the jobs
  stored in the user's row of the user-oriented matrix.
\<close>

definition recommended_line ::
  "env \<Rightarrow> (nat \<Rightarrow> string option) \<Rightarrow> string \<Rightarrow> nat \<times> real \<Rightarrow> error + string" where
  "recommended_line E jobs username js =
    (case jobs (fst js) of
       None \<Rightarrow> Inl (KeyError (fst js))
     | Some job \<Rightarrow> Inr (username @ tab @ job @ tab @ show_score E (snd js) @ newline))"

definition applies_line :: "(nat \<Rightarrow> string option) \<Rightarrow> nat \<Rightarrow> error + string" where
  "applies_line jobs jobid =
    (case jobs jobid of None \<Rightarrow> Inl (KeyError jobid) | Some job \<Rightarrow> Inr (job @ newline))"

definition marker_line :: "string \<Rightarrow> string" where
  "marker_line username = ''Applies for user '' @ username @ newline"

definition user_block ::
  "env \<Rightarrow> model \<Rightarrow> (nat \<Rightarrow> string option) \<Rightarrow> csr_matrix \<Rightarrow> nat \<Rightarrow> string
    \<Rightarrow> (error + string) list" where
  "user_block E m jobs user_applies userid username =
    map (recommended_line E jobs username) (recommend E m userid user_applies)
    @ [Inr (marker_line username)]
    @ (if userid < length (csr_rows user_applies)
       then map (applies_line jobs) (map fst (csr_rows user_applies ! userid))
       else [Inl (IndexError userid)])"

text \<open>The writes of a block, in order: the first exception ends the run.\<close>

fun write_each :: "env \<Rightarrow> string \<Rightarrow> (error + string) list \<Rightarrow> world \<Rightarrow> error option \<times> world" where
  "write_each E filename [] w = (None, w)"
| "write_each E filename (Inl e # rest) w = (Some e, w)"
| "write_each E filename (Inr line # rest) w =
     (case o_write E filename line w of
        (Some e, w') \<Rightarrow> (Some e, w')
      | (None, w') \<Rightarrow> write_each E filename rest w')"

fun user_loop ::
  "env \<Rightarrow> model \<Rightarrow> (nat \<Rightarrow> string option) \<Rightarrow> csr_matrix \<Rightarrow> string \<Rightarrow> (nat \<times> string) list
    \<Rightarrow> world \<Rightarrow> error option \<times> world" where
  "user_loop E m jobs user_applies filename [] w = (None, w)"
| "user_loop E m jobs user_applies filename (u # rest) w =
     (case write_each E filename (user_block E m jobs user_applies (fst u) (snd u))
             (log_event (Recommend (fst u)) w) of
        (Some e, w') \<Rightarrow> (Some e, w')
      | (None, w') \<Rightarrow> user_loop E m jobs user_applies filename rest w')"

definition calculate_recommendations ::
  "env \<Rightarrow> string \<Rightarrow> string \<Rightarrow> string \<Rightarrow> world \<Rightarrow> error option \<times> world" where
  "calculate_recommendations E input_filename output_filename model_name w =
    (case read_data E input_filename w of
       (Inl e, w1) \<Rightarrow> (Some e, w1)
     | (Inr (df, applies), w1) \<Rightarrow>
        (case get_model model_name of
           Inl e \<Rightarrow> (Some e, w1)
         | Inr model0 \<Rightarrow>
            (let model1 = fst (weight_input model0 applies);
                 applies1 = snd (weight_input model0 applies);
                 applies2 = tocsr applies1;
                 m = fit model1 applies2;
                 w2 = log_event (Fit m) w1;
                 jobs = enumerate_dict (job_categories df);
                 user_applies = transpose_tocsr applies2;
                 w3 = codecs_open output_filename w2
             in user_loop E m jobs user_applies output_filename
                  (List.enumerate 0 (user_categories df)) w3)))"

section \<open>Command line\<close>

text \<open>The parsed arguments: \<open>--input\<close>, \<open>--output\<close>, \<open>--model\<close>, \<open>--recommend\<close> and the
  repeated \<open>--param KEY=VALUE\<close> (\<open>None\<close> when never given).\<close>

record args =
  inputfile :: string
  outputfile :: string
  model_arg :: string
  recommend_arg :: bool
  param :: "string list option"

definition main :: "env \<Rightarrow> args \<Rightarrow> world \<Rightarrow> error option \<times> world" where
  "main E a w =
    (if recommend_arg a
     then calculate_recommendations E (inputfile a) (outputfile a) (model_arg a) w
     else calculate_similar_jobs E (inputfile a) (outputfile a) (model_arg a) w)"

text \<open>The models fitted during a run, in order.\<close>

fun fitted_models :: "event list \<Rightarrow> model list" where
  "fitted_models [] = []"
| "fitted_models (Fit m # es) = m # fitted_models es"
| "fitted_models (e # es) = fitted_models es"


section \<open>What the reports hold\<close>






section \<open>Concrete runs\<close>

text \<open>
  An environment and files to run the pipeline on: counts are unsigned decimal integers,
  every score prints as \<open>1.0\<close>, the codec accepts the lines made of ASCII characters only
  (as the implicit ASCII decoding of a byte string does), a model finds every item
  similar to itself alone and recommends the items missing from the user's row.
\<close>

definition digit_of :: "char \<Rightarrow> nat" where
  "digit_of c = of_char c - 48"

definition is_digit :: "char \<Rightarrow> bool" where
  "is_digit c = (48 \<le> (of_char c :: nat) \<and> (of_char c :: nat) \<le> 57)"

definition decimal_float :: "string \<Rightarrow> real option" where
  "decimal_float s =
    (if s \<noteq> [] \<and> list_all is_digit s
     then Some (real (foldl (\<lambda>n c. 10 * n + digit_of c) 0 s)) else None)"

definition ascii_only :: "string \<Rightarrow> bool" where
  "ascii_only s = list_all (\<lambda>c. (of_char c :: nat) < 128) s"

definition missing_items :: "model \<Rightarrow> nat \<Rightarrow> (nat \<times> real) list \<Rightarrow> (nat \<times> real) list" where
  "missing_items m userid row =
    (case fitted m of
       None \<Rightarrow> []
     | Some M \<Rightarrow> map (\<lambda>j. (j, 1)) (filter (\<lambda>j. j \<notin> set (map fst row)) [0..<fst (csr_shape M)]))"

definition env0 :: env where
  "env0 =
    \<lparr>to_float = decimal_float,
     show_score = (\<lambda>x. ''1.0''),
     encodable = ascii_only,
     similar_items = (\<lambda>m jid n. take n [(jid, 1)]),
     rank_row = missing_items\<rparr>"

text \<open>The input of the spec's example, a file with a line whose count is missing, and a
  file with a job title that is not ASCII.\<close>

definition world0 :: world where
  "world0 =
    \<lparr>inputs = [''in.csv'' \<mapsto> [[''u1'', ''i1'', ''3''], [''u1'', ''i2'', ''1''], [''u2'', ''i1'', ''5'']],
               ''short.csv'' \<mapsto> [[''u1'', ''i1'', ''3''], [''u2'', ''i1'']],
               ''title.csv'' \<mapsto> [[''u1'', [CHR ''c'', CHR ''a'', CHR ''f'', CHR 0xE9], ''3''],
                                 [''u2'', ''i1'', ''5'']],
               ''twice.csv'' \<mapsto> [[''u1'', ''i1'', ''3''], [''u1'', ''i1'', ''3'']]],
     outputs = Map.empty,
     trace = []\<rparr>"

text \<open>What \<open>read_data\<close> makes of \<open>in.csv\<close>, and a command line that overrides a parameter.\<close>

definition df0 :: dataframe where
  "df0 =
    \<lparr>frame = [(''u1'', ''i1'', ''3''), (''u1'', ''i2'', ''1''), (''u2'', ''i1'', ''5'')],
     user_categories = [''u1'', ''u2''], job_categories = [''i1'', ''i2'']\<rparr>"

definition applies0 :: coo_matrix where
  "applies0 = \<lparr>shape = (2, 2), entries = [(0, 0, 3), (1, 0, 1), (0, 1, 5)]\<rparr>"

definition args0 :: args where
  "args0 =
    \<lparr>inputfile = ''in.csv'', outputfile = ''out.tsv'', model_arg = ''als'',
     recommend_arg = False, param = Some [''factors=32'']\<rparr>"

text \<open>What \<open>read_data\<close> makes of \<open>title.csv\<close>, whose first job title ends in a character
  that is not ASCII.\<close>

definition cafe :: string where
  "cafe = [CHR ''c'', CHR ''a'', CHR ''f'', CHR 0xE9]"

definition df_title :: dataframe where
  "df_title =
    \<lparr>frame = [(''u1'', cafe, ''3''), (''u2'', ''i1'', ''5'')],
     user_categories = [''u1'', ''u2''], job_categories = [cafe, ''i1'']\<rparr>"

definition applies_title :: coo_matrix where
  "applies_title = \<lparr>shape = (2, 2), entries = [(0, 0, 3), (1, 1, 5)]\<rparr>"



section \<open>Facts about the loader and the registry\<close>

lemma read_data_world: "snd (read_data E f w) = log_event (ReadCsv f) w"
  by (simp add: read_data_def Let_def split: option.splits sum.splits)

lemma get_model_unknown:
  "model_name \<notin> fst ` set MODELS \<Longrightarrow>
    get_model model_name = Inl (ValueError (unknown_model model_name))"
  by (simp add: get_model_def map_of_eq_None_iff[THEN iffD2])

lemma outputs_log_event: "outputs (log_event e w) = outputs w"
  by (simp add: log_event_def)

lemma read_data_env0_in:
  "fst (read_data env0 ''in.csv'' world0) = Inr (df0, applies0)"
  by code_simp

lemma foo_unknown: "''foo'' \<notin> fst ` set MODELS"
  by (simp add: MODELS_def)

lemma unknown_model_run:
  assumes "model_name \<notin> fst ` set MODELS"
    and "fst (read_data E input_filename w) = Inr d"
  shows "calculate_similar_jobs E input_filename output_filename model_name w =
           (Some (ValueError (unknown_model model_name)), log_event (ReadCsv input_filename) w)"
    and "calculate_recommendations E input_filename output_filename model_name w =
           (Some (ValueError (unknown_model model_name)), log_event (ReadCsv input_filename) w)"
proof -
  have r: "read_data E input_filename w = (Inr d, log_event (ReadCsv input_filename) w)"
    using assms(2) read_data_world[of E input_filename w]
    by (cases "read_data E input_filename w") simp
  show "calculate_similar_jobs E input_filename output_filename model_name w =
           (Some (ValueError (unknown_model model_name)), log_event (ReadCsv input_filename) w)"
    using r get_model_unknown[OF assms(1)]
    by (cases d) (simp add: calculate_similar_jobs_def)
  show "calculate_recommendations E input_filename output_filename model_name w =
           (Some (ValueError (unknown_model model_name)), log_event (ReadCsv input_filename) w)"
    using r get_model_unknown[OF assms(1)]
    by (cases d) (simp add: calculate_recommendations_def)
qed

section \<open>Unknown model names\<close>

text \<open>
  C4, as the code has it. Both report functions call \<open>read_data\<close> before \<open>get_model\<close>: a run
  with a model name outside \<open>MODELS\<close> whose input loads fails with the error
  \<open>Unknown Model\<close> only after the input file has been read; nothing else has happened by
  then (no model is fitted, no output file is opened).
\<close>

theorem unknown_model_after_read:
  assumes "model_name \<notin> fst ` set MODELS"
    and "fst (read_data E input_filename w) = Inr d"
  shows "calculate_similar_jobs E input_filename output_filename model_name w =
           (Some (ValueError (unknown_model model_name)), log_event (ReadCsv input_filename) w)
       \<and> calculate_recommendations E input_filename output_filename model_name w =
           (Some (ValueError (unknown_model model_name)), log_event (ReadCsv input_filename) w)"
  using unknown_model_run[OF assms] by simp

theorem unknown_model_after_read_witness:
  "''foo'' \<notin> fst ` set MODELS
   \<and> (\<exists>d. fst (read_data env0 ''in.csv'' world0) = Inr d)
   \<and> calculate_similar_jobs env0 ''in.csv'' ''out.tsv'' ''foo'' world0 =
       (Some (ValueError (unknown_model ''foo'')), log_event (ReadCsv ''in.csv'') world0)
   \<and> calculate_recommendations env0 ''in.csv'' ''out.tsv'' ''foo'' world0 =
       (Some (ValueError (unknown_model ''foo'')), log_event (ReadCsv ''in.csv'') world0)"
  using unknown_model_after_read[OF foo_unknown read_data_env0_in, of "''out.tsv''"]
    foo_unknown read_data_env0_in
  by simp

text \<open>
  C4 as stated fails: the run with the unknown name \<open>foo\<close> has read its input by the time it
  fails, and when the input cannot be read the run fails with the loader's error, not with
  the unknown model error.
\<close>

theorem unknown_model_reads_first:
  "fst (calculate_similar_jobs env0 ''in.csv'' ''out.tsv'' ''foo'' world0) =
     Some (ValueError (unknown_model ''foo''))
   \<and> trace (snd (calculate_similar_jobs env0 ''in.csv'' ''out.tsv'' ''foo'' world0)) =
       [ReadCsv ''in.csv'']
   \<and> fst (calculate_similar_jobs env0 ''none.csv'' ''out.tsv'' ''foo'' world0) =
       Some (IOError ''none.csv'')"
proof -
  have "inputs world0 ''none.csv'' = None"
    by (simp add: world0_def)
  then have "fst (read_data env0 ''none.csv'' world0) = Inl (IOError ''none.csv'')"
    by (simp add: read_data_def Let_def)
  then have "fst (calculate_similar_jobs env0 ''none.csv'' ''out.tsv'' ''foo'' world0) =
      Some (IOError ''none.csv'')"
    by (cases "read_data env0 ''none.csv'' world0") (simp add: calculate_similar_jobs_def)
  then show ?thesis
    using unknown_model_run(1)[OF foo_unknown read_data_env0_in, of "''out.tsv''"]
    by (simp add: log_event_def world0_def)
qed

text \<open>
  C5: a run with a model name outside \<open>MODELS\<close> fails, in either mode, and leaves every
  output file as it was: none is created, none is truncated.
\<close>

theorem unknown_model_no_output:
  assumes "model_name \<notin> fst ` set MODELS"
  shows "fst (calculate_similar_jobs E input_filename output_filename model_name w) \<noteq> None
       \<and> outputs (snd (calculate_similar_jobs E input_filename output_filename model_name w))
           = outputs w
       \<and> fst (calculate_recommendations E input_filename output_filename model_name w) \<noteq> None
       \<and> outputs (snd (calculate_recommendations E input_filename output_filename model_name w))
           = outputs w"
proof -
  obtain r w1 where r: "read_data E input_filename w = (r, w1)"
    by (cases "read_data E input_filename w")
  then have w1: "w1 = log_event (ReadCsv input_filename) w"
    using read_data_world[of E input_filename w] by simp
  show ?thesis
    using r w1 get_model_unknown[OF assms]
    by (cases r)
      (auto simp: calculate_similar_jobs_def calculate_recommendations_def outputs_log_event)
qed

theorem unknown_model_no_output_witness:
  "''foo'' \<notin> fst ` set MODELS
   \<and> fst (calculate_similar_jobs env0 ''in.csv'' ''out.tsv'' ''foo'' world0) \<noteq> None
   \<and> outputs (snd (calculate_similar_jobs env0 ''in.csv'' ''out.tsv'' ''foo'' world0))
       = outputs world0
   \<and> fst (calculate_recommendations env0 ''in.csv'' ''out.tsv'' ''foo'' world0) \<noteq> None
   \<and> outputs (snd (calculate_recommendations env0 ''in.csv'' ''out.tsv'' ''foo'' world0))
       = outputs world0"
  using unknown_model_no_output[OF foo_unknown, of env0 "''in.csv''" "''out.tsv''" world0]
    foo_unknown
  by simp

section \<open>Lines with a missing or malformed count\<close>

lemma those_rows_mem:
  "those_rows ls = Some rs \<Longrightarrow> l \<in> set ls \<Longrightarrow> pad_fields l = Some r \<Longrightarrow> r \<in> set rs"
  by (induction ls arbitrary: rs) (auto split: option.splits)

lemma those_rows_short:
  "list_all (\<lambda>l. l \<noteq> [] \<and> length l \<le> 3) ls \<Longrightarrow> \<exists>rs. those_rows ls = Some rs"
proof (induction ls)
  case Nil
  then show ?case by simp
next
  case (Cons l ls)
  then obtain rs where rs: "those_rows ls = Some rs" by auto
  from Cons.prems have "l \<noteq> []" "length l \<le> 3" by simp_all
  then obtain r where "pad_fields l = Some r"
    by (cases l rule: pad_fields.cases) auto
  with rs show ?case by simp
qed

lemma astype_float_raises:
  "s \<in> set ss \<Longrightarrow> to_float E s = None \<Longrightarrow> \<exists>t. astype_float E ss = Inl (ValueError t)"
  by (induction ss) (auto split: option.splits sum.splits)

lemma short_csv: "inputs world0 ''short.csv'' = Some [[''u1'', ''i1'', ''3''], [''u2'', ''i1'']]"
  by (simp add: world0_def)

lemma to_float_env0_empty: "to_float env0 [] = None"
  by (simp add: env0_def decimal_float_def)

text \<open>
  C7, as the code has it. The loader has no default count and skips blank lines only. In a
  file that can be read and whose lines have at most three fields, a line whose count
  field is not a number makes \<open>read_data\<close> raise \<open>ValueError\<close>; so does a line with one or
  two fields, whose count field is read as the empty string.
\<close>

theorem missing_count_raises:
  assumes "inputs w filename = Some lines"
    and "list_all (\<lambda>l. length l \<le> 3) lines"
    and "l \<in> set lines"
    and "pad_fields l = Some (u, j, a)"
    and "to_float E a = None"
  shows "\<exists>t. fst (read_data E filename w) = Inl (ValueError t)"
proof -
  let ?ls = "filter (\<lambda>l. l \<noteq> []) lines"
  have ne: "l \<noteq> []" using assms(4) by auto
  have l: "l \<in> set ?ls" using assms(3) ne by simp
  have "list_all (\<lambda>l. l \<noteq> [] \<and> length l \<le> 3) ?ls"
    using assms(2) by (auto simp: list_all_iff)
  then obtain rs where rs: "those_rows ?ls = Some rs"
    using those_rows_short by blast
  have "(u, j, a) \<in> set rs"
    using those_rows_mem[OF rs l assms(4)] .
  then have "a \<in> set (map (\<lambda>r. snd (snd r)) rs)" by force
  then obtain t where "astype_float E (map (\<lambda>r. snd (snd r)) rs) = Inl (ValueError t)"
    using astype_float_raises[OF _ assms(5)] by blast
  moreover have "?ls \<noteq> []" using assms(3) ne by (auto simp: filter_empty_conv)
  then have "read_csv lines = Inr rs"
    using rs by (simp add: read_csv_def Let_def)
  ultimately show ?thesis
    using assms(1) by (simp add: read_data_def Let_def)
qed

theorem missing_count_raises_witness:
  "inputs world0 ''short.csv'' = Some [[''u1'', ''i1'', ''3''], [''u2'', ''i1'']]
   \<and> list_all (\<lambda>l. length l \<le> 3) [[''u1'', ''i1'', ''3''], [''u2'', ''i1'']]
   \<and> [''u2'', ''i1''] \<in> set [[''u1'', ''i1'', ''3''], [''u2'', ''i1'']]
   \<and> pad_fields [''u2'', ''i1''] = Some (''u2'', ''i1'', [])
   \<and> to_float env0 [] = None
   \<and> (\<exists>t. fst (read_data env0 ''short.csv'' world0) = Inl (ValueError t))"
  using missing_count_raises[OF short_csv, of "[''u2'', ''i1'']" "''u2''" "''i1''" "[]" env0]
    short_csv to_float_env0_empty
  by simp

text \<open>
  C7 as stated fails: a file whose second line has no count field does not load; the
  conversion of the empty field raises.
\<close>

theorem missing_count_not_defaulted:
  "fst (read_data env0 ''short.csv'' world0) =
     Inl (ValueError ''could not convert string to float: '')"
  by code_simp

section \<open>What a run does, in order\<close>

lemma trace_o_write: "trace (snd (o_write E f l w)) = trace w"
  by (simp add: o_write_def)

lemma trace_write_similar: "trace (write_similar E jobs f job os w) = trace w"
  by (simp add: write_similar_def trace_o_write split: option.splits)

lemma trace_fold_write_similar:
  "trace (fold (write_similar E jobs f job) xs w) = trace w"
  by (induction xs arbitrary: w) (simp_all add: trace_write_similar)

lemma fitted_models_append: "fitted_models (xs @ ys) = fitted_models xs @ fitted_models ys"
  by (induction xs rule: fitted_models.induct) simp_all



lemma fitted_models_similar_loop:
  "fitted_models (trace (snd (similar_loop E m jobs f js w))) = fitted_models (trace w)"
  by (induction js arbitrary: w)
     (auto simp: trace_fold_write_similar log_event_def fitted_models_append split: option.splits)

lemma trace_write_each:
  "trace (snd (write_each E f ls w)) = trace w"
  by (induction E f ls w rule: write_each.induct)
     (auto simp: o_write_def split: prod.splits option.splits if_splits)

lemma fitted_models_user_loop:
  "fitted_models (trace (snd (user_loop E m jobs ua f us w))) = fitted_models (trace w)"
proof (induction us arbitrary: w)
  case Nil
  then show ?case by simp
next
  case (Cons u us)
  obtain r w' where r: "write_each E f (user_block E m jobs ua (fst u) (snd u))
             (log_event (Recommend (fst u)) w) = (r, w')"
    by (cases "write_each E f (user_block E m jobs ua (fst u) (snd u))
             (log_event (Recommend (fst u)) w)")
  then have "trace w' = trace w @ [Recommend (fst u)]"
    using trace_write_each[of E f "user_block E m jobs ua (fst u) (snd u)" "log_event (Recommend (fst u)) w"]
    by (simp add: log_event_def)
  then show ?case using r Cons.IH[of w']
    by (cases r) (simp_all add: fitted_models_append)
qed

lemma fit_call:
  assumes "fst (read_data E i w) = Inr (df, applies)" and "get_model model_name = Inr m"
  shows "fitted_models (trace (snd (calculate_similar_jobs E i out model_name w))) =
           fitted_models (trace w) @
             [fit (fst (weight_input m applies)) (tocsr (snd (weight_input m applies)))]"
    and "fitted_models (trace (snd (calculate_recommendations E i out model_name w))) =
           fitted_models (trace w) @
             [fit (fst (weight_input m applies)) (tocsr (snd (weight_input m applies)))]"
proof -
  have r: "read_data E i w = (Inr (df, applies), log_event (ReadCsv i) w)"
    using assms(1) read_data_world[of E i w] by (cases "read_data E i w") simp
  show "fitted_models (trace (snd (calculate_similar_jobs E i out model_name w))) =
           fitted_models (trace w) @
             [fit (fst (weight_input m applies)) (tocsr (snd (weight_input m applies)))]"
    using r assms(2)
    by (simp add: calculate_similar_jobs_def Let_def fitted_models_similar_loop
        codecs_open_def log_event_def fitted_models_append)
  show "fitted_models (trace (snd (calculate_recommendations E i out model_name w))) =
           fitted_models (trace w) @
             [fit (fst (weight_input m applies)) (tocsr (snd (weight_input m applies)))]"
    using r assms(2)
    by (simp add: calculate_recommendations_def Let_def fitted_models_user_loop
        codecs_open_def log_event_def fitted_models_append)
qed

lemma get_model_nmslib:
  "get_model ''nmslib_als'' =
     Inr (new_model NMSLibAlternatingLeastSquares
       [(''factors'', PInt 64), (''dtype'', PType ''float32''), (''use_gpu'', PBool False)])"
  by (simp add: get_model_def MODELS_def)

lemma get_model_als:
  "get_model ''als'' =
     Inr (new_model AlternatingLeastSquares
       [(''factors'', PInt 64), (''dtype'', PType ''float32''), (''use_gpu'', PBool False)])"
  by (simp add: get_model_def MODELS_def)

section \<open>Weighting, the approximate flag and the fit\<close>

text \<open>
  C3: in a run of either mode whose input loads and whose model name is in \<open>MODELS\<close>,
  \<open>fit\<close> is called once. For a model of the ALS family it is called with the matrix
  weighted by \<open>bm25_weight\<close> (then converted to rows), on a model whose
  \<open>approximate_recommend\<close> flag has been set to \<open>False\<close>; for any other model it is called
  with the loader's matrix of raw counts (converted to rows), the model as \<open>get_model\<close>
  returned it.
\<close>

theorem weighting_before_fit:
  assumes "fst (read_data E input_filename w) = Inr (df, applies)"
    and "get_model model_name = Inr m"
  shows "fitted_models (trace (snd (calculate_similar_jobs E input_filename output_filename model_name w))) =
           fitted_models (trace w) @
             [if issubclass_AlternatingLeastSquares (model_class m)
              then m\<lparr>approximate_recommend := Some False,
                     fitted := Some (tocsr (bm25_weight applies 100 (4 / 5)))\<rparr>
              else m\<lparr>fitted := Some (tocsr applies)\<rparr>]
       \<and> fitted_models (trace (snd (calculate_recommendations E input_filename output_filename model_name w))) =
           fitted_models (trace w) @
             [if issubclass_AlternatingLeastSquares (model_class m)
              then m\<lparr>approximate_recommend := Some False,
                     fitted := Some (tocsr (bm25_weight applies 100 (4 / 5)))\<rparr>
              else m\<lparr>fitted := Some (tocsr applies)\<rparr>]"
  using fit_call[OF assms] by (simp add: weight_input_def fit_def)

theorem weighting_before_fit_witness:
  "fst (read_data env0 ''in.csv'' world0) = Inr (df0, applies0)
   \<and> get_model ''nmslib_als'' =
       Inr (new_model NMSLibAlternatingLeastSquares
         [(''factors'', PInt 64), (''dtype'', PType ''float32''), (''use_gpu'', PBool False)])
   \<and> fitted_models (trace (snd (calculate_similar_jobs env0 ''in.csv'' ''out.tsv'' ''nmslib_als'' world0))) =
       [\<lparr>model_class = NMSLibAlternatingLeastSquares,
         params = [(''factors'', PInt 64), (''dtype'', PType ''float32''), (''use_gpu'', PBool False)],
         approximate_recommend = Some False,
         fitted = Some (tocsr (bm25_weight applies0 100 (4 / 5)))\<rparr>]
   \<and> fitted_models (trace (snd (calculate_recommendations env0 ''in.csv'' ''out.tsv'' ''nmslib_als'' world0))) =
       [\<lparr>model_class = NMSLibAlternatingLeastSquares,
         params = [(''factors'', PInt 64), (''dtype'', PType ''float32''), (''use_gpu'', PBool False)],
         approximate_recommend = Some False,
         fitted = Some (tocsr (bm25_weight applies0 100 (4 / 5)))\<rparr>]"
  using weighting_before_fit[OF read_data_env0_in get_model_nmslib, of "''out.tsv''"]
    read_data_env0_in get_model_nmslib
  by (simp add: new_model_def world0_def)

section \<open>Parameter overrides\<close>

text \<open>
  C8 fails on the code: \<open>--param\<close> is parsed and never used. The run of the command line
  \<open>--input in.csv --model als --param factors=32\<close> fits a model constructed with the
  default \<open>factors = 64\<close>, and does exactly what the run without \<open>--param\<close> does.
\<close>

theorem param_not_passed:
  "map params (fitted_models (trace (snd (main env0 args0 world0)))) =
     [[(''factors'', PInt 64), (''dtype'', PType ''float32''), (''use_gpu'', PBool False)]]
   \<and> main env0 (args0\<lparr>param := None\<rparr>) world0 = main env0 args0 world0"
  using fit_call(1)[OF read_data_env0_in get_model_als, of "''out.tsv''"]
  by (simp add: main_def args0_def weight_input_def fit_def new_model_def world0_def)

section \<open>A line that cannot be written\<close>

lemma read_data_env0_title:
  "fst (read_data env0 ''title.csv'' world0) = Inr (df_title, applies_title)"
  by code_simp

lemma get_model_cosine: "get_model ''cosine'' = Inr (new_model CosineRecommender [])"
  by (simp add: get_model_def MODELS_def)

lemma weight_input_cosine:
  "weight_input (new_model CosineRecommender []) X = (new_model CosineRecommender [], X)"
  by (simp add: weight_input_def new_model_def)

lemma recommendations_title_loop:
  "fst (user_loop env0 (fit (new_model CosineRecommender []) (tocsr applies_title))
          (enumerate_dict (job_categories df_title)) (transpose_tocsr (tocsr applies_title))
          ''out.tsv'' (List.enumerate 0 (user_categories df_title))
          (codecs_open ''out.tsv''
             (log_event (Fit (fit (new_model CosineRecommender []) (tocsr applies_title)))
                (log_event (ReadCsv ''title.csv'') world0)))) =
     Some (UnicodeError (cafe @ newline))
   \<and> outputs (snd (user_loop env0 (fit (new_model CosineRecommender []) (tocsr applies_title))
          (enumerate_dict (job_categories df_title)) (transpose_tocsr (tocsr applies_title))
          ''out.tsv'' (List.enumerate 0 (user_categories df_title))
          (codecs_open ''out.tsv''
             (log_event (Fit (fit (new_model CosineRecommender []) (tocsr applies_title)))
                (log_event (ReadCsv ''title.csv'') world0))))) ''out.tsv'' =
     Some [''u1'' @ tab @ ''i1'' @ tab @ ''1.0'' @ newline, marker_line ''u1'']"
  by code_simp

lemma similar_title_loop:
  "fst (similar_loop env0 (fit (new_model CosineRecommender []) (tocsr applies_title))
          (enumerate_dict (job_categories df_title)) ''out.tsv'' (to_generate df_title)
          (codecs_open ''out.tsv''
             (log_event (Fit (fit (new_model CosineRecommender []) (tocsr applies_title)))
                (log_event (ReadCsv ''title.csv'') world0)))) = None
   \<and> outputs (snd (similar_loop env0 (fit (new_model CosineRecommender []) (tocsr applies_title))
          (enumerate_dict (job_categories df_title)) ''out.tsv'' (to_generate df_title)
          (codecs_open ''out.tsv''
             (log_event (Fit (fit (new_model CosineRecommender []) (tocsr applies_title)))
                (log_event (ReadCsv ''title.csv'') world0))))) ''out.tsv'' =
     Some [''i1'' @ tab @ ''i1'' @ tab @ ''1.0'' @ newline]"
  by code_simp

text \<open>
  C6 holds for the similarity report and fails for the recommendation report, which
  writes without a \<open>try\<close>. On \<open>title.csv\<close>, where the title of the first job is not ASCII
  and the codec refuses it, the recommendation run ends with the error at the first
  history line of user \<open>u1\<close> and the block of \<open>u2\<close> is never written; the similarity run
  on the same input drops the offending line and goes on to the next job.
\<close>

theorem write_failure_aborts_recommendations:
  "fst (calculate_recommendations env0 ''title.csv'' ''out.tsv'' ''cosine'' world0) =
     Some (UnicodeError (cafe @ newline))
   \<and> outputs (snd (calculate_recommendations env0 ''title.csv'' ''out.tsv'' ''cosine'' world0))
       ''out.tsv'' =
     Some [''u1'' @ tab @ ''i1'' @ tab @ ''1.0'' @ newline, marker_line ''u1'']
   \<and> fst (calculate_similar_jobs env0 ''title.csv'' ''out.tsv'' ''cosine'' world0) = None
   \<and> outputs (snd (calculate_similar_jobs env0 ''title.csv'' ''out.tsv'' ''cosine'' world0))
       ''out.tsv'' =
     Some [''i1'' @ tab @ ''i1'' @ tab @ ''1.0'' @ newline]"
proof -
  have r: "read_data env0 ''title.csv'' world0 =
      (Inr (df_title, applies_title), log_event (ReadCsv ''title.csv'') world0)"
    using read_data_env0_title read_data_world[of env0 "''title.csv''" world0]
    by (cases "read_data env0 ''title.csv'' world0") simp
  have 1: "calculate_recommendations env0 ''title.csv'' ''out.tsv'' ''cosine'' world0 =
      user_loop env0 (fit (new_model CosineRecommender []) (tocsr applies_title))
          (enumerate_dict (job_categories df_title)) (transpose_tocsr (tocsr applies_title))
          ''out.tsv'' (List.enumerate 0 (user_categories df_title))
          (codecs_open ''out.tsv''
             (log_event (Fit (fit (new_model CosineRecommender []) (tocsr applies_title)))
                (log_event (ReadCsv ''title.csv'') world0)))"
    by (simp add: calculate_recommendations_def r get_model_cosine weight_input_cosine Let_def)
  have 2: "calculate_similar_jobs env0 ''title.csv'' ''out.tsv'' ''cosine'' world0 =
      similar_loop env0 (fit (new_model CosineRecommender []) (tocsr applies_title))
          (enumerate_dict (job_categories df_title)) ''out.tsv'' (to_generate df_title)
          (codecs_open ''out.tsv''
             (log_event (Fit (fit (new_model CosineRecommender []) (tocsr applies_title)))
                (log_event (ReadCsv ''title.csv'') world0)))"
    by (simp add: calculate_similar_jobs_def r get_model_cosine weight_input_cosine Let_def)
  show ?thesis
    unfolding 1 2 using recommendations_title_loop similar_title_loop by simp
qed

section \<open>BM25 weighting with a saturation constant of zero\<close>


lemma idf_applies0: "idf applies0 0 = ln 2 - ln 3" "idf applies0 1 = 0"
  by (simp_all add: idf_def applies0_def bincount_def)




section \<open>Categories, codes and the matrix of the loader\<close>









section \<open>Conversion to rows and transposition\<close>














lemma length_transpose_tocsr: "length (csr_rows (transpose_tocsr M)) = snd (csr_shape M)"
  by (simp add: transpose_tocsr_def)



section \<open>Duplicate records\<close>





















section \<open>The similarity report\<close>













section \<open>The recommendation report\<close>













end
